theory Spec2Isabelle
  imports Complex_Main
begin

section \<open>The rate limiter\<close>

text \<open>
  Class \<open>RateLimiter\<close> of \<open>service.ts\<close>. Its fields \<open>queue\<close> and \<open>processing\<close> are
  never read or written by any method and are left out. Clock readings (\<open>Date.now()\<close>)
  are milliseconds; \<open>minIntervalMs\<close> is \<open>1000 / requestsPerSecond\<close> and need not be a
  whole number, so times are rationals.
\<close>

record RateLimiter =
  minIntervalMs :: rat
  maxRequestsPerSecond :: rat
  lastCallTime :: rat

definition RateLimiter_new :: "rat \<Rightarrow> rat \<Rightarrow> RateLimiter" where
  "RateLimiter_new minInterval maxRps =
     \<lparr>minIntervalMs = minInterval, maxRequestsPerSecond = maxRps, lastCallTime = 0\<rparr>"



section \<open>The service and its retry configuration\<close>

record RetryConfig =
  maxRetries :: nat
  initialDelayMs :: nat
  maxDelayMs :: nat
  backoffMultiplier :: nat

text \<open>
  The constructor of \<open>WormholeService\<close>. \<open>requestsPerSecond\<close> is a positive number (the
  plugin's schema asks for 1 to 100, default 10) and \<open>maxRetries\<close> a natural number
  (schema: 0 to 10, default 3). For \<open>requestsPerSecond = 0\<close> the source computes
  \<open>Infinity\<close>, which the rational quotient below does not show; every statement about
  \<open>minIntervalMs\<close> therefore assumes \<open>0 < requestsPerSecond\<close>.
\<close>

record WormholeService =
  baseUrl :: string
  apiKey :: string
  timeout :: nat
  requestsPerSecond :: rat
  rateLimiter :: RateLimiter
  retryConfig :: RetryConfig

definition WormholeService_new ::
  "string \<Rightarrow> string \<Rightarrow> nat \<Rightarrow> rat \<Rightarrow> nat \<Rightarrow> WormholeService" where
  "WormholeService_new url key tmo rps retries =
     (let minInterval = max 100 (1000 / rps)
      in \<lparr>baseUrl = url, apiKey = key, timeout = tmo, requestsPerSecond = rps,
          rateLimiter = RateLimiter_new minInterval rps,
          retryConfig = \<lparr>maxRetries = retries, initialDelayMs = 1000,
                          maxDelayMs = 10000, backoffMultiplier = 2\<rparr>\<rparr>)"

section \<open>JavaScript values, strings and errors\<close>

text \<open>
  A parsed JSON document. A property read gives \<open>undefined\<close> where the property is
  missing, so a read value is a \<open>json option\<close> with \<open>None\<close> for \<open>undefined\<close>.
  Numbers are the rationals they denote: the rounding of IEEE doubles is not
  modelled, and the only non-rational results kept are the ones a division by zero
  produces (\<open>js_number\<close> below).
\<close>

datatype json =
  JNull | JBool bool | JNum rat | JStr string | JArr "json list" | JObj "(string \<times> json) list"

type_synonym jsval = "json option"

datatype js_number = Finite rat | PosInfinity | NegInfinity | NaN

text \<open>What is thrown: an \<open>Error\<close> object (its class and message) or any other thing,
  kept as the text \<open>String(error)\<close> gives for it.\<close>

datatype error_class =
  Error | TypeError | SyntaxError | RangeError | PluginConfigurationError | OtherError

datatype thrown = Exn error_class string | NonError string

fun error_message :: "thrown \<Rightarrow> string" where
  "error_message (Exn c m) = m"
| "error_message (NonError s) = s"

fun instanceof :: "thrown \<Rightarrow> error_class \<Rightarrow> bool" where
  "instanceof (Exn c m) k = (c = k)"
| "instanceof (NonError s) k = False"

subsection \<open>Strings\<close>

fun startsWith :: "string \<Rightarrow> string \<Rightarrow> bool" where
  "startsWith s [] = True"
| "startsWith [] (c # cs) = False"
| "startsWith (x # xs) (c # cs) = (x = c \<and> startsWith xs cs)"

text \<open>\<open>s.includes(sub)\<close>: \<open>sub\<close> occurs in \<open>s\<close> as a contiguous piece.\<close>

fun str_includes :: "string \<Rightarrow> string \<Rightarrow> bool" where
  "str_includes [] sub = (sub = [])"
| "str_includes (x # xs) sub = (startsWith (x # xs) sub \<or> str_includes xs sub)"

definition digit_char :: "nat \<Rightarrow> char" where
  "digit_char d = ''0123456789'' ! d"

text \<open>Decimal rendering of a natural number and of an integer (\<open>toString()\<close> of a
  BigInt, and of a number that is a whole number below \<open>10^21\<close>).\<close>

fun show_nat :: "nat \<Rightarrow> string" where
  "show_nat n = (if n < 10 then [digit_char n] else show_nat (n div 10) @ [digit_char (n mod 10)])"

definition show_int :: "int \<Rightarrow> string" where
  "show_int i = (if i < 0 then CHR ''-'' # show_nat (nat (- i)) else show_nat (nat i))"

definition is_space :: "char \<Rightarrow> bool" where
  "is_space c = (c = CHR '' '' \<or> (9 \<le> (of_char c :: nat) \<and> (of_char c :: nat) \<le> 13))"

definition trim :: "string \<Rightarrow> string" where
  "trim s = rev (dropWhile is_space (rev (dropWhile is_space s)))"

definition digit_value :: "char \<Rightarrow> nat option" where
  "digit_value c =
     (let k = (of_char c :: nat)
      in if 48 \<le> k \<and> k \<le> 57 then Some (k - 48)
         else if 97 \<le> k \<and> k \<le> 102 then Some (k - 87)
         else if 65 \<le> k \<and> k \<le> 70 then Some (k - 55)
         else None)"

fun digits_value :: "nat \<Rightarrow> nat \<Rightarrow> string \<Rightarrow> nat option" where
  "digits_value base acc [] = Some acc"
| "digits_value base acc (c # cs) =
     (case digit_value c of
        None \<Rightarrow> None
      | Some d \<Rightarrow> if d < base then digits_value base (acc * base + d) cs else None)"

definition parse_digits :: "nat \<Rightarrow> string \<Rightarrow> nat option" where
  "parse_digits base s = (if s = [] then None else digits_value base 0 s)"

text \<open>
  \<open>BigInt(s)\<close> for a string \<open>s\<close>: white space is trimmed (the ASCII white space; the
  Unicode spaces are not modelled), the empty string is \<open>0n\<close>, then come a decimal
  literal with an optional sign or an unsigned literal with prefix \<open>0x\<close>, \<open>0o\<close> or
  \<open>0b\<close>. Anything else is a \<open>SyntaxError\<close> (\<open>None\<close>).
\<close>

definition StringToBigInt :: "string \<Rightarrow> int option" where
  "StringToBigInt s =
     (case trim s of
        [] \<Rightarrow> Some 0
      | c # cs \<Rightarrow>
          if c = CHR ''-'' then map_option (\<lambda>n. - int n) (parse_digits 10 cs)
          else if c = CHR ''+'' then map_option int (parse_digits 10 cs)
          else if c = CHR ''0'' \<and> cs \<noteq> [] \<and> (hd cs = CHR ''x'' \<or> hd cs = CHR ''X'')
            then map_option int (parse_digits 16 (tl cs))
          else if c = CHR ''0'' \<and> cs \<noteq> [] \<and> (hd cs = CHR ''o'' \<or> hd cs = CHR ''O'')
            then map_option int (parse_digits 8 (tl cs))
          else if c = CHR ''0'' \<and> cs \<noteq> [] \<and> (hd cs = CHR ''b'' \<or> hd cs = CHR ''B'')
            then map_option int (parse_digits 2 (tl cs))
          else map_option int (parse_digits 10 (c # cs)))"

definition BigInt_string :: "string \<Rightarrow> thrown + int" where
  "BigInt_string s =
     (case StringToBigInt s of
        None \<Rightarrow> Inl (Exn SyntaxError (''Cannot convert '' @ s @ '' to a BigInt''))
      | Some i \<Rightarrow> Inr i)"

subsection \<open>Truthiness, property reads, conversions\<close>

fun truthy :: "jsval \<Rightarrow> bool" where
  "truthy None = False"
| "truthy (Some JNull) = False"
| "truthy (Some (JBool b)) = b"
| "truthy (Some (JNum r)) = (r \<noteq> 0)"
| "truthy (Some (JStr s)) = (s \<noteq> [])"
| "truthy (Some (JArr xs)) = True"
| "truthy (Some (JObj kvs)) = True"

text \<open>\<open>a || b\<close>\<close>

definition js_or :: "jsval \<Rightarrow> jsval \<Rightarrow> jsval" where
  "js_or a b = (if truthy a then a else b)"

text \<open>
  \<open>data.name\<close> on a parsed JSON document that is not \<open>null\<close>: the member of an
  object (the last one, where a name is repeated), \<open>undefined\<close> on anything else; none
  of the names the service reads is a built-in property of a string, a number, a
  boolean or an array. Reading a property of \<open>null\<close> throws a \<open>TypeError\<close>, which
  \<open>read_null\<close> is.
\<close>

fun js_get :: "json \<Rightarrow> string \<Rightarrow> jsval" where
  "js_get (JObj kvs) name = map_of (rev kvs) name"
| "js_get j name = None"

definition read_null :: "string \<Rightarrow> thrown" where
  "read_null name =
     Exn TypeError (''Cannot read properties of null (reading '' @ [CHR 0x27] @ name @ [CHR 0x27] @ '')'')"

definition is_whole :: "rat \<Rightarrow> bool" where
  "is_whole r = (of_int \<lfloor>r\<rfloor> = r)"

text \<open>
  \<open>BigInt(v)\<close> for a truthy \<open>v\<close>: a whole number converts, any other number is a
  \<open>RangeError\<close>; \<open>true\<close> is \<open>1n\<close>; a string is parsed; an array or an object is first
  turned into a string, which \<open>BigInt\<close> accepts for the empty array (\<open>""\<close>) and for a
  one-element array whose element it accepts (\<open>[null]\<close> gives \<open>""\<close>), and rejects
  otherwise (a comma, or \<open>[object Object]\<close>).
\<close>

fun BigInt_json :: "json \<Rightarrow> thrown + int" where
  "BigInt_json (JNum r) =
     (if is_whole r then Inr \<lfloor>r\<rfloor>
      else Inl (Exn RangeError ''The number cannot be converted to a BigInt because it is not an integer''))"
| "BigInt_json (JBool b) = Inr (if b then 1 else 0)"
| "BigInt_json (JStr s) = BigInt_string s"
| "BigInt_json JNull = Inl (Exn TypeError ''Cannot convert null to a BigInt'')"
| "BigInt_json (JArr []) = Inr 0"
| "BigInt_json (JArr [JNull]) = Inr 0"
| "BigInt_json (JArr [JNum r]) =
     (if is_whole r \<and> \<bar>r\<bar> < 10 ^ 21 then Inr \<lfloor>r\<rfloor>
      else Inl (Exn SyntaxError ''Cannot convert the array to a BigInt''))"
| "BigInt_json (JArr [JBool b]) = Inl (Exn SyntaxError ''Cannot convert the array to a BigInt'')"
| "BigInt_json (JArr [x]) = BigInt_json x"
| "BigInt_json (JArr (x # y # zs)) = Inl (Exn SyntaxError ''Cannot convert the array to a BigInt'')"
| "BigInt_json (JObj kvs) = Inl (Exn SyntaxError ''Cannot convert [object Object] to a BigInt'')"

text \<open>
  \<open>BigInt(String(v))\<close> for a truthy \<open>v\<close>: as above, except that a number goes through
  its decimal rendering, which is a plain digit string only for a whole number below
  \<open>10^21\<close> in size, and that \<open>true\<close> becomes the string \<open>"true"\<close>.
\<close>

fun BigInt_of_String :: "json \<Rightarrow> thrown + int" where
  "BigInt_of_String (JNum r) =
     (if is_whole r \<and> \<bar>r\<bar> < 10 ^ 21 then Inr \<lfloor>r\<rfloor>
      else Inl (Exn SyntaxError ''Cannot convert the number to a BigInt''))"
| "BigInt_of_String (JBool b) = Inl (Exn SyntaxError ''Cannot convert true to a BigInt'')"
| "BigInt_of_String x = BigInt_json x"

text \<open>Division of numbers, with the results JavaScript gives for a zero divisor.\<close>

definition js_div :: "rat \<Rightarrow> rat \<Rightarrow> js_number" where
  "js_div a b =
     (if b \<noteq> 0 then Finite (a / b)
      else if a = 0 then NaN
      else if 0 < a then PosInfinity else NegInfinity)"

fun js_abs :: "js_number \<Rightarrow> js_number" where
  "js_abs (Finite r) = Finite \<bar>r\<bar>"
| "js_abs PosInfinity = PosInfinity"
| "js_abs NegInfinity = PosInfinity"
| "js_abs NaN = NaN"

text \<open>\<open>x <= t\<close> for a finite number \<open>t\<close>\<close>

fun js_le :: "js_number \<Rightarrow> rat \<Rightarrow> bool" where
  "js_le (Finite r) t = (r \<le> t)"
| "js_le PosInfinity t = False"
| "js_le NegInfinity t = True"
| "js_le NaN t = False"

section \<open>The retrying executor\<close>

text \<open>
  What the service reads of a \<open>Response\<close>: the status and its text, the
  \<open>Retry-After\<close> header (\<open>None\<close> where \<open>headers.get\<close> gives \<open>null\<close>) and what
  \<open>await response.json()\<close> gives, a parsed document or the error it throws.
  \<open>response.ok\<close> is true for the statuses 200 to 299.
\<close>

record HttpResponse =
  status :: nat
  statusText :: string
  retryAfterHeader :: "string option"
  json_body :: "thrown + json"

definition ok :: "HttpResponse \<Rightarrow> bool" where
  "ok r = (200 \<le> status r \<and> status r \<le> 299)"

text \<open>One call of \<open>requestFn\<close>: the promise resolves with a response or rejects (a
  network failure, the abort of \<open>AbortSignal.timeout\<close>, anything else thrown).\<close>

datatype fetch_outcome = Resolved HttpResponse | Rejected thrown

text \<open>
  \<open>parseInt(s, 10)\<close>: leading white space, an optional sign, then the longest run of
  decimal digits; \<open>NaN\<close> (\<open>None\<close>) where there is no digit. \<open>render_parsed\<close> is the text
  a template literal gives for the result (for a whole number below \<open>10^21\<close> in size).
\<close>

definition is_decimal :: "char \<Rightarrow> bool" where
  "is_decimal c = (48 \<le> (of_char c :: nat) \<and> (of_char c :: nat) \<le> 57)"

definition parseInt10 :: "string \<Rightarrow> int option" where
  "parseInt10 s =
     (let t = dropWhile is_space s;
          neg = (t \<noteq> [] \<and> hd t = CHR ''-'');
          ds = (if t \<noteq> [] \<and> (hd t = CHR ''-'' \<or> hd t = CHR ''+'') then tl t else t);
          run = takeWhile is_decimal ds
      in if run = [] then None
         else map_option (\<lambda>n. if neg then - int n else int n) (digits_value 10 0 run))"

definition render_parsed :: "int option \<Rightarrow> string" where
  "render_parsed p = (case p of None \<Rightarrow> ''NaN'' | Some i \<Rightarrow> show_int i)"

text \<open>The error thrown for a response that is not \<open>ok\<close>, in the order of the source's
  tests; \<open>attempt\<close> is the loop counter.\<close>

definition http_error :: "RetryConfig \<Rightarrow> nat \<Rightarrow> HttpResponse \<Rightarrow> thrown" where
  "http_error cfg attempt r =
     (if status r = 429 then
        (let header = (case retryAfterHeader r of None \<Rightarrow> ''60'' | Some h \<Rightarrow> if h = [] then ''60'' else h);
             retryAfter = parseInt10 header
         in Exn Error (''Rate limited. Retry after '' @ render_parsed retryAfter @ '' seconds''))
      else if status r = 401 \<or> status r = 403 then
        Exn PluginConfigurationError ''Invalid API credentials or insufficient permissions''
      else if 500 \<le> status r \<and> attempt < maxRetries cfg then
        Exn Error (''Server error: '' @ show_nat (status r) @ '' '' @ statusText r)
      else Exn Error (''HTTP '' @ show_nat (status r) @ '': '' @ statusText r))"

text \<open>
  The inner \<open>try\<close> of one loop round: the request, the status tests, the parse. The
  \<open>AbortController\<close> created there is connected to nothing (the requests carry their
  own \<open>AbortSignal.timeout\<close>), so a timeout shows as a rejected request.
\<close>

definition try_attempt ::
  "RetryConfig \<Rightarrow> nat \<Rightarrow> fetch_outcome \<Rightarrow> (HttpResponse \<Rightarrow> thrown + 'a) \<Rightarrow> thrown + 'a" where
  "try_attempt cfg attempt outcome parseFn =
     (case outcome of
        Rejected e \<Rightarrow> Inl e
      | Resolved r \<Rightarrow> if \<not> ok r then Inl (http_error cfg attempt r) else parseFn r)"

text \<open>\<open>error instanceof Error ? error : new Error(String(error))\<close>\<close>

fun as_Error :: "thrown \<Rightarrow> thrown" where
  "as_Error (Exn c m) = Exn c m"
| "as_Error (NonError s) = Exn Error s"

text \<open>The test of the outer \<open>catch\<close> that ends the loop with \<open>throw lastError\<close>.\<close>

definition no_retry :: "thrown \<Rightarrow> bool" where
  "no_retry lastError =
     ((instanceof lastError TypeError \<and> str_includes (error_message lastError) ''fetch'')
      \<or> str_includes (error_message lastError) ''Authentication failed'')"

text \<open>What the executor does, in order: it waits for a slot of the rate limiter,
  issues the request, sleeps before a retry.\<close>

datatype event = SlotAcquired | RequestIssued | Backoff nat

text \<open>The delay of the retry after round \<open>attempt\<close>. On the whole numbers of the
  configuration the minimum is the same in floating point, also where the power
  overflows to \<open>Infinity\<close>.\<close>

definition backoff_delay :: "RetryConfig \<Rightarrow> nat \<Rightarrow> nat" where
  "backoff_delay cfg attempt =
     min (initialDelayMs cfg * backoffMultiplier cfg ^ attempt) (maxDelayMs cfg)"

text \<open>
  The loop of \<open>executeRequest\<close>, from round \<open>attempt\<close> on, with the \<open>lastError\<close> seen
  so far. \<open>requestFn k\<close> is the outcome of the request of round \<open>k\<close>. The result is what
  the call returns (\<open>Inr\<close>) or throws (\<open>Inl\<close>), with the trace of what it did.
\<close>

function executeRequest_from ::
  "RetryConfig \<Rightarrow> (nat \<Rightarrow> fetch_outcome) \<Rightarrow> (HttpResponse \<Rightarrow> thrown + 'a) \<Rightarrow> nat
     \<Rightarrow> thrown option \<Rightarrow> (thrown + 'a) \<times> event list" where
  "executeRequest_from cfg requestFn parseFn attempt lastError =
     (if attempt \<le> maxRetries cfg then
        (case try_attempt cfg attempt (requestFn attempt) parseFn of
           Inr v \<Rightarrow> (Inr v, [SlotAcquired, RequestIssued])
         | Inl error \<Rightarrow>
             if instanceof error PluginConfigurationError
               then (Inl error, [SlotAcquired, RequestIssued])
             else if no_retry (as_Error error)
               then (Inl (as_Error error), [SlotAcquired, RequestIssued])
             else
               (case executeRequest_from cfg requestFn parseFn (Suc attempt) (Some (as_Error error)) of
                  (res, evs) \<Rightarrow>
                    (res, [SlotAcquired, RequestIssued]
                          @ (if attempt < maxRetries cfg then [Backoff (backoff_delay cfg attempt)] else [])
                          @ evs)))
      else (Inl (case lastError of
                   Some e \<Rightarrow> e
                 | None \<Rightarrow> Exn Error ''Request failed after all retries''), []))"
  by pat_completeness auto
termination
  by (relation "measure (\<lambda>(cfg, requestFn, parseFn, attempt, lastError). Suc (maxRetries cfg) - attempt)") auto

definition executeRequest ::
  "WormholeService \<Rightarrow> (nat \<Rightarrow> fetch_outcome) \<Rightarrow> (HttpResponse \<Rightarrow> thrown + 'a)
     \<Rightarrow> (thrown + 'a) \<times> event list" where
  "executeRequest svc requestFn parseFn =
     executeRequest_from (retryConfig svc) requestFn parseFn 0 None"

text \<open>The number of requests in a trace, and the sleeps in it.\<close>

definition attempts :: "event list \<Rightarrow> nat" where
  "attempts evs = length (filter (\<lambda>e. e = RequestIssued) evs)"

fun delays :: "event list \<Rightarrow> nat list" where
  "delays [] = []"
| "delays (Backoff d # evs) = d # delays evs"
| "delays (e # evs) = delays evs"

text \<open>
  The failures after which the loop goes on while rounds remain: a rejected request
  that none of the tests of the \<open>catch\<close> block stops, and a response with a status of
  500 or more whose status text does not bring \<open>Authentication failed\<close> into the
  message of the error.
\<close>

definition retryable_rejection :: "thrown \<Rightarrow> bool" where
  "retryable_rejection e = (\<not> instanceof e PluginConfigurationError \<and> \<not> no_retry (as_Error e))"

fun retryable_failure :: "fetch_outcome \<Rightarrow> bool" where
  "retryable_failure (Resolved r) =
     (500 \<le> status r \<and> \<not> str_includes (statusText r) ''Authentication failed'')"
| "retryable_failure (Rejected e) = retryable_rejection e"

text \<open>An upstream that gives \<open>bad\<close> to the first \<open>n\<close> requests and \<open>good\<close> from then on.\<close>

definition fails_then :: "nat \<Rightarrow> fetch_outcome \<Rightarrow> fetch_outcome \<Rightarrow> nat \<Rightarrow> fetch_outcome" where
  "fails_then n bad good k = (if k < n then bad else good)"

definition response :: "nat \<Rightarrow> string \<Rightarrow> thrown + json \<Rightarrow> HttpResponse" where
  "response code text body =
     \<lparr>status = code, statusText = text, retryAfterHeader = None, json_body = body\<rparr>"

text \<open>An upstream that gives the same outcome to every request.\<close>

definition always :: "fetch_outcome \<Rightarrow> nat \<Rightarrow> fetch_outcome" where
  "always outcome k = outcome"

section \<open>The data of a snapshot\<close>

text \<open>
  The types of \<open>contract.ts\<close> as \<open>service.ts\<close> fills them. \<open>decimals\<close> is a natural
  number. \<open>volumeUsd\<close> is whatever the upstream document holds under the names read,
  so it is a \<open>jsval\<close>. Time stamps (\<open>new Date().toISOString()\<close>) are the text \<open>now\<close>
  handed to each operation: all clock readings of one operation are taken to be the
  same instant.
\<close>

datatype window_name = W24h | W7d | W30d

fun window_text :: "window_name \<Rightarrow> string" where
  "window_text W24h = ''24h''"
| "window_text W7d = ''7d''"
| "window_text W30d = ''30d''"

record Asset =
  chainId :: string
  assetId :: string
  symbol :: string
  decimals :: nat

record Route =
  source :: Asset
  destination :: Asset

record VolumeWindow =
  window :: window_name
  volumeUsd :: jsval
  measuredAt :: string

record Rate =
  rate_source :: Asset
  rate_destination :: Asset
  amountIn :: string
  amountOut :: string
  effectiveRate :: js_number
  totalFeesUsd :: rat
  quotedAt :: string

record LiquidityThreshold =
  maxAmountIn :: string
  slippageBps :: rat

record LiquidityDepth =
  route :: Route
  thresholds :: "LiquidityThreshold list"
  liquidity_measuredAt :: string

text \<open>An entry of the asset list as the parse function builds it from a document:
  \<open>listed_chainId\<close> is the value \<open>String(...)\<close> is applied to, the other fields are
  stored as read.\<close>

record ListedAsset =
  listed_chainId :: jsval
  listed_assetId :: jsval
  listed_symbol :: jsval
  listed_decimals :: jsval

record ListedAssets =
  assets :: "ListedAsset list"
  assets_measuredAt :: string

record ProviderSnapshot =
  volumes :: "VolumeWindow list"
  rates :: "Rate list"
  liquidity :: "LiquidityDepth list"
  listedAssets :: ListedAssets

record SnapshotParams =
  routes :: "Route list"
  notionals :: "string list"
  includeWindows :: "window_name list option"

record PingResult =
  ping_status :: string
  timestamp :: string

section \<open>Volumes\<close>

definition estimateVolumeForWindow :: "window_name \<Rightarrow> rat" where
  "estimateVolumeForWindow w = (case w of W24h \<Rightarrow> 5000000 | W7d \<Rightarrow> 35000000 | W30d \<Rightarrow> 150000000)"

text \<open>The parse function \<open>getVolumes\<close> hands to \<open>executeRequest\<close>.\<close>

definition parseVolume :: "window_name \<Rightarrow> string \<Rightarrow> HttpResponse \<Rightarrow> thrown + VolumeWindow" where
  "parseVolume w now r =
     (case json_body r of
        Inl e \<Rightarrow> Inl e
      | Inr data \<Rightarrow>
          if data = JNull then Inl (read_null ''volumeUsd'')
          else Inr \<lparr>window = w,
                    volumeUsd = js_or (js_or (js_or (js_get data ''volumeUsd'')
                                                    (js_get data (''volume'' @ window_text w)))
                                             (js_get data ''total''))
                                      (Some (JNum 0)),
                    measuredAt = now\<rparr>)"

text \<open>
  \<open>getVolumes\<close>: one \<open>executeRequest\<close> per window, in order; \<open>upstream i\<close> answers the
  requests made for the window at position \<open>i\<close>. Whatever \<open>executeRequest\<close> throws is
  caught and replaced by the estimate for the window.
\<close>

fun getVolumes_from ::
  "WormholeService \<Rightarrow> (nat \<Rightarrow> nat \<Rightarrow> fetch_outcome) \<Rightarrow> string \<Rightarrow> nat \<Rightarrow> window_name list
     \<Rightarrow> VolumeWindow list" where
  "getVolumes_from svc upstream now i [] = []"
| "getVolumes_from svc upstream now i (w # ws) =
     (case fst (executeRequest svc (upstream i) (parseVolume w now)) of
        Inr volume \<Rightarrow> volume
      | Inl error \<Rightarrow> \<lparr>window = w, volumeUsd = Some (JNum (estimateVolumeForWindow w)),
                       measuredAt = now\<rparr>)
     # getVolumes_from svc upstream now (Suc i) ws"

definition getVolumes ::
  "WormholeService \<Rightarrow> (nat \<Rightarrow> nat \<Rightarrow> fetch_outcome) \<Rightarrow> string \<Rightarrow> window_name list
     \<Rightarrow> VolumeWindow list" where
  "getVolumes svc upstream now windows = getVolumes_from svc upstream now 0 windows"

section \<open>Rates\<close>

definition estimateFeesUsd :: "int \<Rightarrow> nat \<Rightarrow> rat" where
  "estimateFeesUsd amount decs =
     (let feeBps = 5;
          normalizedAmount = of_int amount / 10 ^ decs
      in normalizedAmount * (feeBps / 10000))"

text \<open>\<open>apiData.amountOut || apiData.outputAmount || apiData.amount || apiData.amountOutMin\<close>\<close>

definition amountOutRaw_of :: "json \<Rightarrow> jsval" where
  "amountOutRaw_of apiData =
     js_or (js_or (js_or (js_get apiData ''amountOut'') (js_get apiData ''outputAmount''))
                  (js_get apiData ''amount''))
           (js_get apiData ''amountOutMin'')"

text \<open>
  \<open>normalizeRate\<close>. \<open>Number(x)\<close> of a BigInt and the quotients are exact here; both
  divisors are non-zero where they are used (a power of ten, and
  \<open>amountInNormalized\<close> behind its test).
\<close>

definition normalizeRate :: "Asset \<Rightarrow> Asset \<Rightarrow> string \<Rightarrow> json \<Rightarrow> string \<Rightarrow> thrown + Rate" where
  "normalizeRate src dst amountIn_text apiData now =
     (case BigInt_string amountIn_text of
        Inl e \<Rightarrow> Inl e
      | Inr amountInNum \<Rightarrow>
          if apiData = JNull then Inl (read_null ''amountOut'')
          else
            (case amountOutRaw_of apiData of
               None \<Rightarrow> Inl (Exn Error ''Missing amountOut in API response'')
             | Some amountOutRaw \<Rightarrow>
                 if \<not> truthy (Some amountOutRaw)
                   then Inl (Exn Error ''Missing amountOut in API response'')
                 else
                   (case BigInt_of_String amountOutRaw of
                      Inl e \<Rightarrow> Inl e
                    | Inr amountOutNum \<Rightarrow>
                        (let sourceMultiplier = (10 :: int) ^ decimals src;
                             destMultiplier = (10 :: int) ^ decimals dst;
                             amountInNormalized = (of_int amountInNum :: rat) / of_int sourceMultiplier;
                             amountOutNormalized = (of_int amountOutNum :: rat) / of_int destMultiplier
                         in if amountInNormalized = 0
                              then Inl (Exn Error ''AmountIn cannot be zero'')
                            else
                              (let rate = amountOutNormalized / amountInNormalized;
                                   feeAmount = js_or (js_or (js_or (js_get apiData ''fee'')
                                                                   (js_get apiData ''totalFees''))
                                                            (js_get apiData ''feeUsd''))
                                                     (Some (JNum 0));
                                   feeInUsd = (case feeAmount of
                                                 Some (JNum f) \<Rightarrow> f
                                               | _ \<Rightarrow> estimateFeesUsd amountInNum (decimals src))
                               in Inr \<lparr>rate_source = src, rate_destination = dst,
                                        amountIn = show_int amountInNum,
                                        amountOut = show_int amountOutNum,
                                        effectiveRate = Finite rate,
                                        totalFeesUsd = feeInUsd,
                                        quotedAt = now\<rparr>)))))"

text \<open>The fallback of \<open>getRates\<close>. \<open>0.995\<close> is \<open>199 / 200\<close>; the quotient at the end is
  \<open>NaN\<close> for the amount \<open>0\<close>.\<close>

definition estimateRate :: "Asset \<Rightarrow> Asset \<Rightarrow> string \<Rightarrow> string \<Rightarrow> thrown + Rate" where
  "estimateRate src dst amountIn_text now =
     (case BigInt_string amountIn_text of
        Inl e \<Rightarrow> Inl e
      | Inr amountInNum \<Rightarrow>
          (let sourceMultiplier = (10 :: int) ^ decimals src;
               destMultiplier = (10 :: int) ^ decimals dst;
               amountInNormalized = (of_int amountInNum :: rat) / of_int sourceMultiplier;
               rateMultiplier = 199 / 200;
               amountOutNormalized = amountInNormalized * rateMultiplier;
               amountOutNum = \<lfloor>amountOutNormalized * of_int destMultiplier\<rfloor>;
               rate = js_div amountOutNormalized amountInNormalized;
               feesUsd = estimateFeesUsd amountInNum (decimals src)
           in Inr \<lparr>rate_source = src, rate_destination = dst,
                    amountIn = show_int amountInNum,
                    amountOut = show_int amountOutNum,
                    effectiveRate = rate,
                    totalFeesUsd = feesUsd,
                    quotedAt = now\<rparr>))"

definition parseRate :: "Route \<Rightarrow> string \<Rightarrow> string \<Rightarrow> HttpResponse \<Rightarrow> thrown + Rate" where
  "parseRate rt notional now r =
     (case json_body r of
        Inl e \<Rightarrow> Inl e
      | Inr data \<Rightarrow> normalizeRate (source rt) (destination rt) notional data now)"

text \<open>
  \<open>getRates\<close>: for each route and each notional one \<open>executeRequest\<close>;
  \<open>upstream i j\<close> answers the requests for route \<open>i\<close> and notional \<open>j\<close>. A failure is
  replaced by \<open>estimateRate\<close>, which is called inside the \<open>catch\<close> block: what it throws
  leaves \<open>getRates\<close>.
\<close>

fun getRates_notionals ::
  "WormholeService \<Rightarrow> (nat \<Rightarrow> nat \<Rightarrow> fetch_outcome) \<Rightarrow> string \<Rightarrow> Route \<Rightarrow> nat \<Rightarrow> string list
     \<Rightarrow> thrown + Rate list" where
  "getRates_notionals svc upstream now rt j [] = Inr []"
| "getRates_notionals svc upstream now rt j (notional # rest) =
     (case (case fst (executeRequest svc (upstream j) (parseRate rt notional now)) of
              Inr rate \<Rightarrow> Inr rate
            | Inl error \<Rightarrow> estimateRate (source rt) (destination rt) notional now) of
        Inl e \<Rightarrow> Inl e
      | Inr rate \<Rightarrow>
          (case getRates_notionals svc upstream now rt (Suc j) rest of
             Inl e \<Rightarrow> Inl e
           | Inr others \<Rightarrow> Inr (rate # others)))"

fun getRates_from ::
  "WormholeService \<Rightarrow> (nat \<Rightarrow> nat \<Rightarrow> nat \<Rightarrow> fetch_outcome) \<Rightarrow> string \<Rightarrow> nat \<Rightarrow> Route list
     \<Rightarrow> string list \<Rightarrow> thrown + Rate list" where
  "getRates_from svc upstream now i [] ns = Inr []"
| "getRates_from svc upstream now i (rt # rts) ns =
     (case getRates_notionals svc (upstream i) now rt 0 ns of
        Inl e \<Rightarrow> Inl e
      | Inr first \<Rightarrow>
          (case getRates_from svc upstream now (Suc i) rts ns of
             Inl e \<Rightarrow> Inl e
           | Inr others \<Rightarrow> Inr (first @ others)))"

definition getRates ::
  "WormholeService \<Rightarrow> (nat \<Rightarrow> nat \<Rightarrow> nat \<Rightarrow> fetch_outcome) \<Rightarrow> string \<Rightarrow> Route list \<Rightarrow> string list
     \<Rightarrow> thrown + Rate list" where
  "getRates svc upstream now rts ns = getRates_from svc upstream now 0 rts ns"

text \<open>The two assets of the USDC route from chain 1 to chain 137 (entries of the
  fallback asset list), and an upstream quote that holds nothing but \<open>amountOut\<close>.\<close>

definition USDC_chain1 :: Asset where
  "USDC_chain1 = \<lparr>chainId = ''1'', assetId = ''0xA0b86991c6218b36c1d19D4a2e9Eb0cE3606eB48'',
                   symbol = ''USDC'', decimals = 6\<rparr>"

definition USDC_chain137 :: Asset where
  "USDC_chain137 = \<lparr>chainId = ''137'', assetId = ''0x2791Bca1f2de4661ED88A30C99A7a9449Aa84174'',
                     symbol = ''USDC'', decimals = 6\<rparr>"

definition quote_of :: "string \<Rightarrow> json" where
  "quote_of out = JObj [(''amountOut'', JStr out)]"

section \<open>Liquidity depth\<close>

text \<open>The quotient of two BigInts is cut towards zero.\<close>

definition BigInt_div :: "int \<Rightarrow> int \<Rightarrow> int" where
  "BigInt_div a b = sgn a * sgn b * (\<bar>a\<bar> div \<bar>b\<bar>)"

text \<open>
  \<open>calculateSlippage\<close>. \<open>quote.amountOut || quote.outputAmount || 0\<close> goes to \<open>BigInt\<close>
  as it is (not through \<open>String\<close>). The divisor \<open>sourceMultiplier\<close> is a power of ten
  and never zero.
\<close>

definition calculateSlippage :: "Route \<Rightarrow> string \<Rightarrow> json \<Rightarrow> thrown + js_number" where
  "calculateSlippage rt amountIn_text quote =
     (case BigInt_string amountIn_text of
        Inl e \<Rightarrow> Inl e
      | Inr amountInNum \<Rightarrow>
          if quote = JNull then Inl (read_null ''amountOut'')
          else
            (case js_or (js_or (js_get quote ''amountOut'') (js_get quote ''outputAmount''))
                        (Some (JNum 0)) of
               None \<Rightarrow> Inl (Exn TypeError ''Cannot convert undefined to a BigInt'')
             | Some raw \<Rightarrow>
                 (case BigInt_json raw of
                    Inl e \<Rightarrow> Inl e
                  | Inr amountOutNum \<Rightarrow>
                      (let sourceMultiplier = (10 :: int) ^ decimals (source rt);
                           destMultiplier = (10 :: int) ^ decimals (destination rt);
                           expectedOut = BigInt_div (amountInNum * destMultiplier) sourceMultiplier;
                           slippage = js_div (of_int (expectedOut - amountOutNum) * 10000)
                                             (of_int expectedOut)
                       in Inr (js_abs slippage)))))"

text \<open>The parse function of the quote requests: \<open>await response.json()\<close>.\<close>

definition parseQuote :: "HttpResponse \<Rightarrow> thrown + json" where
  "parseQuote r = json_body r"

text \<open>
  The first two statements of the inner \<open>try\<close> of one search round: the quote
  fetched through \<open>executeRequest\<close>, and the slippage \<open>calculateSlippage\<close> makes of
  it. \<open>answers\<close> are the outcomes of the requests made by this one \<open>executeRequest\<close>
  for the amount asked.
\<close>

definition realized_slippage ::
  "WormholeService \<Rightarrow> (string \<Rightarrow> nat \<Rightarrow> fetch_outcome) \<Rightarrow> Route \<Rightarrow> string \<Rightarrow> thrown + js_number" where
  "realized_slippage svc answers rt testAmountInSmallestUnits =
     (case fst (executeRequest svc (answers testAmountInSmallestUnits) parseQuote) of
        Inl e \<Rightarrow> Inl e
      | Inr quote \<Rightarrow> calculateSlippage rt testAmountInSmallestUnits quote)"

text \<open>
  The inner \<open>try\<close> up to the comparison: \<open>Inr True\<close> where the slippage is within
  the threshold, \<open>Inr False\<close> where it is not, \<open>Inl\<close> where the request or
  \<open>calculateSlippage\<close> throws.
\<close>

definition probe ::
  "WormholeService \<Rightarrow> (string \<Rightarrow> nat \<Rightarrow> fetch_outcome) \<Rightarrow> Route \<Rightarrow> rat \<Rightarrow> string
     \<Rightarrow> thrown + bool" where
  "probe svc answers rt bps testAmountInSmallestUnits =
     (case realized_slippage svc answers rt testAmountInSmallestUnits of
        Inl e \<Rightarrow> Inl e
      | Inr actualSlippage \<Rightarrow> Inr (js_le actualSlippage bps))"

text \<open>
  The loop of \<open>findMaxLiquidity\<close> from round \<open>i\<close>, with the bounds and the best
  amount so far, in whole tokens. \<open>upstream i\<close> answers the requests of round \<open>i\<close>.
  The result is the best amount and the amounts asked, in order.
\<close>

function findMaxLiquidity_from ::
  "WormholeService \<Rightarrow> (nat \<Rightarrow> string \<Rightarrow> nat \<Rightarrow> fetch_outcome) \<Rightarrow> Route \<Rightarrow> rat
     \<Rightarrow> nat \<Rightarrow> int \<Rightarrow> int \<Rightarrow> int \<Rightarrow> int \<times> string list" where
  "findMaxLiquidity_from svc upstream rt bps i minAmount maxAmount bestAmount =
     (if i < 20 then
        (let testAmount = (minAmount + maxAmount) div 2;
             testAmountInSmallestUnits = show_int (testAmount * 10 ^ decimals (source rt))
         in case (case probe svc (upstream i) rt bps testAmountInSmallestUnits of
                    Inr True \<Rightarrow>
                      findMaxLiquidity_from svc upstream rt bps (Suc i) (testAmount + 1) maxAmount testAmount
                  | Inr False \<Rightarrow>
                      findMaxLiquidity_from svc upstream rt bps (Suc i) minAmount (testAmount - 1) bestAmount
                  | Inl error \<Rightarrow>
                      findMaxLiquidity_from svc upstream rt bps (Suc i) minAmount (testAmount - 1) bestAmount) of
              (best, asked) \<Rightarrow> (best, testAmountInSmallestUnits # asked))
      else (bestAmount, []))"
  by pat_completeness auto
termination
  by (relation "measure (\<lambda>(svc, upstream, rt, bps, i, lo, hi, best). 20 - i)") auto

definition findMaxLiquidity ::
  "WormholeService \<Rightarrow> (nat \<Rightarrow> string \<Rightarrow> nat \<Rightarrow> fetch_outcome) \<Rightarrow> Route \<Rightarrow> rat
     \<Rightarrow> LiquidityThreshold \<times> string list" where
  "findMaxLiquidity svc upstream rt bps =
     (case findMaxLiquidity_from svc upstream rt bps 0 1000 10000000 1000 of
        (bestAmount, asked) \<Rightarrow>
          (\<lparr>maxAmountIn = show_int (bestAmount * 10 ^ decimals (source rt)), slippageBps = bps\<rparr>,
           asked))"

definition estimateLiquidityAmount :: "Asset \<Rightarrow> rat \<Rightarrow> string" where
  "estimateLiquidityAmount asset bps =
     (let baseLiquidityUsd = (if bps = 50 then 2000000 else 1000000 :: int)
      in show_int (baseLiquidityUsd * 10 ^ decimals asset))"

text \<open>
  \<open>getLiquidityDepth\<close>: per route the two searches, for 50 and for 100 basis points;
  \<open>upstream i bps\<close> answers the requests of the search for route \<open>i\<close> and threshold
  \<open>bps\<close> (the two searches of a route run concurrently, each sees its own answers).
  With natural \<open>decimals\<close> nothing in the \<open>try\<close> block throws, \<open>findMaxLiquidity\<close>
  catching every failure of a round itself, so the \<open>catch\<close> block with its estimates
  (\<open>estimateLiquidityAmount\<close>) is never entered.
\<close>

fun getLiquidityDepth_from ::
  "WormholeService \<Rightarrow> (nat \<Rightarrow> rat \<Rightarrow> nat \<Rightarrow> string \<Rightarrow> nat \<Rightarrow> fetch_outcome) \<Rightarrow> string \<Rightarrow> nat
     \<Rightarrow> Route list \<Rightarrow> LiquidityDepth list" where
  "getLiquidityDepth_from svc upstream now i [] = []"
| "getLiquidityDepth_from svc upstream now i (rt # rts) =
     \<lparr>route = rt,
      thresholds = [fst (findMaxLiquidity svc (upstream i 50) rt 50),
                    fst (findMaxLiquidity svc (upstream i 100) rt 100)],
      liquidity_measuredAt = now\<rparr>
     # getLiquidityDepth_from svc upstream now (Suc i) rts"

definition getLiquidityDepth ::
  "WormholeService \<Rightarrow> (nat \<Rightarrow> rat \<Rightarrow> nat \<Rightarrow> string \<Rightarrow> nat \<Rightarrow> fetch_outcome) \<Rightarrow> string
     \<Rightarrow> Route list \<Rightarrow> LiquidityDepth list" where
  "getLiquidityDepth svc upstream now rts = getLiquidityDepth_from svc upstream now 0 rts"

section \<open>Listed assets\<close>

definition listed :: "Asset \<Rightarrow> ListedAsset" where
  "listed a =
     \<lparr>listed_chainId = Some (JStr (chainId a)), listed_assetId = Some (JStr (assetId a)),
      listed_symbol = Some (JStr (symbol a)), listed_decimals = Some (JNum (of_nat (decimals a)))\<rparr>"

definition getFallbackAssets :: "Asset list" where
  "getFallbackAssets =
     [\<lparr>chainId = ''1'', assetId = ''0xA0b86991c6218b36c1d19D4a2e9Eb0cE3606eB48'', symbol = ''USDC'', decimals = 6\<rparr>,
      \<lparr>chainId = ''1'', assetId = ''0xdAC17F958D2ee523a2206206994597C13D831ec7'', symbol = ''USDT'', decimals = 6\<rparr>,
      \<lparr>chainId = ''137'', assetId = ''0x2791Bca1f2de4661ED88A30C99A7a9449Aa84174'', symbol = ''USDC'', decimals = 6\<rparr>,
      \<lparr>chainId = ''42161'', assetId = ''0xFF970A61A04b1cA14834A43f5dE4533eBDDB5CC8'', symbol = ''USDC'', decimals = 6\<rparr>,
      \<lparr>chainId = ''56'', assetId = ''0x8AC76a51cc950d9822D68b83fE1Ad97B32Cd580d'', symbol = ''USDC'', decimals = 18\<rparr>,
      \<lparr>chainId = ''43114'', assetId = ''0xB97EF9Ef8734C71904D8002F8b6Bc66Dd9c48a6E'', symbol = ''USDC'', decimals = 6\<rparr>,
      \<lparr>chainId = ''1399811149'', assetId = ''EPjFWdd5AufqSSqeM2qN1xzybapC8G4wEGGkZwyTDt1v'', symbol = ''USDC'', decimals = 6\<rparr>]"

text \<open>One element of the upstream list, as the callback of \<open>map\<close> turns it into an
  entry; reading a property of a \<open>null\<close> element throws.\<close>

definition parseAsset :: "json \<Rightarrow> thrown + ListedAsset" where
  "parseAsset asset =
     (if asset = JNull then Inl (read_null ''chainId'')
      else Inr \<lparr>listed_chainId = js_or (js_or (js_get asset ''chainId'') (js_get asset ''chain_id''))
                                       (js_get asset ''chain''),
                listed_assetId = js_or (js_or (js_or (js_get asset ''assetId'') (js_get asset ''asset_id''))
                                              (js_get asset ''address''))
                                       (js_get asset ''contractAddress''),
                listed_symbol = js_or (js_or (js_get asset ''symbol'') (js_get asset ''name''))
                                      (Some (JStr ''UNKNOWN'')),
                listed_decimals = js_or (js_get asset ''decimals'') (Some (JNum 18))\<rparr>)"

fun parseAssets_each :: "json list \<Rightarrow> thrown + ListedAsset list" where
  "parseAssets_each [] = Inr []"
| "parseAssets_each (x # xs) =
     (case parseAsset x of
        Inl e \<Rightarrow> Inl e
      | Inr a \<Rightarrow> (case parseAssets_each xs of Inl e \<Rightarrow> Inl e | Inr rest \<Rightarrow> Inr (a # rest)))"

text \<open>The parse function of \<open>getListedAssets\<close>; only an array has a \<open>map\<close> method.\<close>

definition parseAssets :: "HttpResponse \<Rightarrow> thrown + ListedAsset list" where
  "parseAssets r =
     (case json_body r of
        Inl e \<Rightarrow> Inl e
      | Inr data \<Rightarrow>
          if data = JNull then Inl (read_null ''assets'')
          else
            (case js_or (js_or (js_get data ''assets'') (js_get data ''results'')) (Some (JArr [])) of
               Some (JArr xs) \<Rightarrow> parseAssets_each xs
             | _ \<Rightarrow> Inl (Exn TypeError ''assetsArray.map is not a function'')))"

definition getListedAssets ::
  "WormholeService \<Rightarrow> (nat \<Rightarrow> fetch_outcome) \<Rightarrow> string \<Rightarrow> ListedAssets" where
  "getListedAssets svc upstream now =
     (case fst (executeRequest svc upstream parseAssets) of
        Inr found \<Rightarrow> \<lparr>assets = found, assets_measuredAt = now\<rparr>
      | Inl error \<Rightarrow> \<lparr>assets = map listed getFallbackAssets, assets_measuredAt = now\<rparr>)"

section \<open>The snapshot and the health check\<close>

text \<open>
  \<open>Effect.tryPromise({try, catch})\<close>: the effect succeeds (\<open>Inr\<close>) with what the
  promise resolves to; where the promise rejects, the effect fails (\<open>Inl\<close>), and the
  failure it carries is what \<open>catch\<close> makes of the rejection. \<open>getSnapshot\<close> builds
  its error that way, and the variant of \<open>ping\<close> below needs \<open>Effect.catchAll\<close> to turn
  such a failure into a success.
\<close>

definition tryPromise :: "'x + 'a \<Rightarrow> ('x \<Rightarrow> 'e) \<Rightarrow> 'e + 'a" where
  "tryPromise promise catch = (case promise of Inl x \<Rightarrow> Inl (catch x) | Inr a \<Rightarrow> Inr a)"

text \<open>\<open>effect.pipe(Effect.catchAll(handler))\<close>: a failure is replaced by the effect the
  handler returns.\<close>

definition catchAll :: "'e + 'a \<Rightarrow> ('e \<Rightarrow> 'f + 'a) \<Rightarrow> 'f + 'a" where
  "catchAll effect handler = (case effect of Inl e \<Rightarrow> handler e | Inr a \<Rightarrow> Inr a)"

text \<open>The answers of the upstream to the four concurrent branches of a snapshot,
  each branch with the answers it sees.\<close>

record Upstream =
  volume_answers :: "nat \<Rightarrow> nat \<Rightarrow> fetch_outcome"
  quote_answers :: "nat \<Rightarrow> nat \<Rightarrow> nat \<Rightarrow> fetch_outcome"
  liquidity_answers :: "nat \<Rightarrow> rat \<Rightarrow> nat \<Rightarrow> string \<Rightarrow> nat \<Rightarrow> fetch_outcome"
  asset_answers :: "nat \<Rightarrow> fetch_outcome"

text \<open>
  \<open>getSnapshot\<close>. Of the four branches of \<open>Promise.all\<close> only \<open>getRates\<close> can reject
  (the others catch what they meet), so the promise rejects exactly where \<open>getRates\<close>
  does. The \<open>catch\<close> of \<open>tryPromise\<close> wraps the message of what was thrown.
\<close>

definition getSnapshot ::
  "WormholeService \<Rightarrow> Upstream \<Rightarrow> string \<Rightarrow> SnapshotParams \<Rightarrow> thrown + ProviderSnapshot" where
  "getSnapshot svc up now params =
     tryPromise
       (case getRates svc (quote_answers up) now (routes params) (notionals params) of
          Inl e \<Rightarrow> Inl e
        | Inr rs \<Rightarrow>
            Inr \<lparr>volumes = getVolumes svc (volume_answers up) now
                              (case includeWindows params of None \<Rightarrow> [W24h] | Some ws \<Rightarrow> ws),
                 rates = rs,
                 liquidity = getLiquidityDepth svc (liquidity_answers up) now (routes params),
                 listedAssets = getListedAssets svc (asset_answers up) now\<rparr>)
       (\<lambda>error. Exn Error (''Failed to fetch snapshot: '' @ error_message error))"

text \<open>The parse function of the health request: \<open>async () => ({ status: "ok" })\<close>.\<close>

definition parseHealth :: "HttpResponse \<Rightarrow> thrown + string" where
  "parseHealth r = Inr ''ok''"

text \<open>
  \<open>ping\<close> of \<open>service.ts\<close>: the request goes through \<open>executeRequest\<close>; the \<open>catch\<close>
  of \<open>tryPromise\<close> returns the same record as the \<open>try\<close> part.
\<close>

definition ping :: "WormholeService \<Rightarrow> (nat \<Rightarrow> fetch_outcome) \<Rightarrow> string \<Rightarrow> PingResult + PingResult" where
  "ping svc upstream now =
     tryPromise
       (case fst (executeRequest svc upstream parseHealth) of
          Inl e \<Rightarrow> Inl e
        | Inr health \<Rightarrow> Inr \<lparr>ping_status = ''ok'', timestamp = now\<rparr>)
       (\<lambda>error. \<lparr>ping_status = ''ok'', timestamp = now\<rparr>)"

text \<open>
  \<open>ping\<close> of the second variant of the service (the one that reads the operations
  endpoint): one request without retry, an error for a response that is not \<open>ok\<close>,
  and \<open>Effect.catchAll\<close> after \<open>tryPromise\<close>.
\<close>

definition ping_operations :: "fetch_outcome \<Rightarrow> string \<Rightarrow> thrown + PingResult" where
  "ping_operations outcome now =
     (case catchAll
             (tryPromise
                (case outcome of
                   Rejected e \<Rightarrow> Inl e
                 | Resolved r \<Rightarrow>
                     if \<not> ok r then Inl (Exn Error (''Health check returned '' @ show_nat (status r)))
                     else Inr ''ok'')
                (\<lambda>error. Exn Error (''Health check failed: '' @ error_message error)))
             (\<lambda>failure. Inr ''ok'') of
        Inl e \<Rightarrow> Inl e
      | Inr pingResult \<Rightarrow> Inr \<lparr>ping_status = pingResult, timestamp = now\<rparr>)"

text \<open>An upstream that gives the same outcome to every request of every branch.\<close>

definition uniform_upstream :: "fetch_outcome \<Rightarrow> Upstream" where
  "uniform_upstream outcome =
     \<lparr>volume_answers = (\<lambda>i. always outcome),
      quote_answers = (\<lambda>i j. always outcome),
      liquidity_answers = (\<lambda>i bps k amount. always outcome),
      asset_answers = always outcome\<rparr>"

section \<open>The liquidity search in the words of the specification\<close>

text \<open>
  The description to which \<open>findMaxLiquidity\<close> is compared. A quote for an amount
  either succeeds with an \<open>amountOut\<close> or fails.
\<close>

datatype quote_outcome = QuoteOk int | QuoteFailed

text \<open>The output of \<open>tokens\<close> whole tokens at a rate of one to one, in the smallest
  units of the destination asset.\<close>

definition spec_expectedOut :: "Route \<Rightarrow> int \<Rightarrow> int" where
  "spec_expectedOut rt tokens = tokens * 10 ^ decimals (destination rt)"

text \<open>\<open>actualSlippageBps = |expectedOut - actualOut| / expectedOut * 10000\<close>\<close>

definition spec_slippage_bps :: "int \<Rightarrow> int \<Rightarrow> rat" where
  "spec_slippage_bps expectedOut actualOut =
     \<bar>of_int expectedOut - of_int actualOut\<bar> / of_int expectedOut * 10000"

text \<open>The midpoint is within the threshold: the quote succeeded and its slippage is
  at most the threshold. A failed quote counts as exceeding it.\<close>

definition spec_within :: "Route \<Rightarrow> rat \<Rightarrow> quote_outcome \<Rightarrow> int \<Rightarrow> bool" where
  "spec_within rt bps q mid =
     (case q of
        QuoteOk actualOut \<Rightarrow> spec_slippage_bps (spec_expectedOut rt mid) actualOut \<le> bps
      | QuoteFailed \<Rightarrow> False)"

text \<open>
  \<open>n\<close> rounds of the search from round \<open>i\<close> on the bounds \<open>lo\<close>, \<open>hi\<close> and the best
  amount so far: the midpoint is tried; within the threshold it becomes the best
  amount and the floor rises above it, otherwise the ceiling drops below it. The
  result is the last state and the midpoints tried, in order.
\<close>

fun spec_rounds ::
  "(nat \<Rightarrow> int \<Rightarrow> bool) \<Rightarrow> nat \<Rightarrow> nat \<Rightarrow> int \<times> int \<times> int \<Rightarrow> (int \<times> int \<times> int) \<times> int list" where
  "spec_rounds accepts i 0 st = (st, [])"
| "spec_rounds accepts i (Suc n) (lo, hi, best) =
     (let mid = (lo + hi) div 2
      in case spec_rounds accepts (Suc i) n
                (if accepts i mid then (mid + 1, hi, mid) else (lo, mid - 1, best)) of
           (final, mids) \<Rightarrow> (final, mid # mids))"

text \<open>
  Twenty rounds on the whole-token bounds 1000 and 10000000; \<open>quotes i amount\<close> is
  the outcome of the quote asked in round \<open>i\<close> for \<open>amount\<close> smallest units. The result
  is the best amount and the amounts asked, all in smallest units.
\<close>

definition spec_findMaxLiquidity ::
  "Route \<Rightarrow> rat \<Rightarrow> (nat \<Rightarrow> int \<Rightarrow> quote_outcome) \<Rightarrow> int \<times> int list" where
  "spec_findMaxLiquidity rt bps quotes =
     (case spec_rounds
             (\<lambda>i mid. spec_within rt bps (quotes i (mid * 10 ^ decimals (source rt))) mid)
             0 20 (1000, 10000000, 1000) of
        ((lo, hi, best), mids) \<Rightarrow>
          (best * 10 ^ decimals (source rt), map (\<lambda>mid. mid * 10 ^ decimals (source rt)) mids))"

text \<open>
  What a finished \<open>executeRequest\<close> for a quote is as a quote outcome: a failure
  where it threw or where the document gives no integer for \<open>amountOut\<close>, a success
  with that integer otherwise (\<open>0\<close> where \<open>amountOut\<close> and \<open>outputAmount\<close> are missing).
\<close>

definition quote_outcome_of :: "thrown + json \<Rightarrow> quote_outcome" where
  "quote_outcome_of result =
     (case result of
        Inl e \<Rightarrow> QuoteFailed
      | Inr quote \<Rightarrow>
          if quote = JNull then QuoteFailed
          else
            (case js_or (js_or (js_get quote ''amountOut'') (js_get quote ''outputAmount''))
                        (Some (JNum 0)) of
               None \<Rightarrow> QuoteFailed
             | Some raw \<Rightarrow>
                 (case BigInt_json raw of Inl e \<Rightarrow> QuoteFailed | Inr out \<Rightarrow> QuoteOk out)))"

definition quotes_seen ::
  "WormholeService \<Rightarrow> (nat \<Rightarrow> string \<Rightarrow> nat \<Rightarrow> fetch_outcome) \<Rightarrow> nat \<Rightarrow> int \<Rightarrow> quote_outcome" where
  "quotes_seen svc upstream i amount =
     quote_outcome_of (fst (executeRequest svc (upstream i (show_int amount)) parseQuote))"

section \<open>Unfolding the recursive functions\<close>

text \<open>The defining equations of the loops rewrite their own right-hand sides; they are
  taken out of the simplifier and replaced by one equation per branch.\<close>

declare show_nat.simps [simp del]
declare executeRequest_from.simps [simp del]
declare findMaxLiquidity_from.simps [simp del]

lemma show_nat_small [simp]: "n < 10 \<Longrightarrow> show_nat n = [digit_char n]"
  by (subst show_nat.simps) simp

lemma show_nat_large [simp]:
  "\<not> n < 10 \<Longrightarrow> show_nat n = show_nat (n div 10) @ [digit_char (n mod 10)]"
  by (subst show_nat.simps) simp

section \<open>Properties of the rate limiter\<close>








section \<open>Properties of the retrying executor\<close>

lemma executeRequest_from_step:
  "attempt \<le> maxRetries cfg \<Longrightarrow>
   executeRequest_from cfg requestFn parseFn attempt lastError =
     (case try_attempt cfg attempt (requestFn attempt) parseFn of
           Inr v \<Rightarrow> (Inr v, [SlotAcquired, RequestIssued])
         | Inl error \<Rightarrow>
             if instanceof error PluginConfigurationError
               then (Inl error, [SlotAcquired, RequestIssued])
             else if no_retry (as_Error error)
               then (Inl (as_Error error), [SlotAcquired, RequestIssued])
             else
               (case executeRequest_from cfg requestFn parseFn (Suc attempt) (Some (as_Error error)) of
                  (res, evs) \<Rightarrow>
                    (res, [SlotAcquired, RequestIssued]
                          @ (if attempt < maxRetries cfg then [Backoff (backoff_delay cfg attempt)] else [])
                          @ evs)))"
  by (subst executeRequest_from.simps) simp

lemma executeRequest_from_done:
  "maxRetries cfg < attempt \<Longrightarrow>
   executeRequest_from cfg requestFn parseFn attempt lastError =
     (Inl (case lastError of Some e \<Rightarrow> e | None \<Rightarrow> Exn Error ''Request failed after all retries''), [])"
  by (subst executeRequest_from.simps) simp

lemma str_includes_skip:
  "c \<notin> set p \<Longrightarrow> str_includes (p @ s) (c # sub) = str_includes s (c # sub)"
  by (induction p) auto

lemma digit_char_set: "d < 10 \<Longrightarrow> digit_char d \<in> set ''0123456789''"
  unfolding digit_char_def by (rule nth_mem) simp

lemma show_nat_digits: "set (show_nat n) \<subseteq> set ''0123456789''"
proof (induction n rule: show_nat.induct)
  case (1 n)
  show ?case
  proof (cases "n < 10")
    case True
    then show ?thesis using digit_char_set [of n] by (subst show_nat.simps) simp
  next
    case False
    then have "set (show_nat (n div 10)) \<subseteq> set ''0123456789''" using 1 by simp
    moreover have "digit_char (n mod 10) \<in> set ''0123456789''" by (rule digit_char_set) simp
    ultimately show ?thesis using False by (subst show_nat.simps) simp
  qed
qed

lemma server_error_message:
  "str_includes (''Server error: '' @ show_nat n @ '' '' @ t) ''Authentication failed''
     = str_includes t ''Authentication failed''"
proof -
  have "CHR ''A'' \<notin> set ''0123456789''" by simp
  then have "CHR ''A'' \<notin> set (show_nat n)" using show_nat_digits [of n] by blast
  then have "CHR ''A'' \<notin> set (''Server error: '' @ show_nat n @ '' '')" by simp
  then show ?thesis
    using str_includes_skip [of "CHR ''A''" "''Server error: '' @ show_nat n @ '' ''" t "''uthentication failed''"]
    by simp
qed

lemma retryable_failure_step:
  assumes "retryable_failure outcome" and "attempt < maxRetries cfg"
  shows "\<exists>e. try_attempt cfg attempt outcome parseFn = Inl e
             \<and> \<not> instanceof e PluginConfigurationError \<and> \<not> no_retry (as_Error e)"
proof (cases outcome)
  case (Rejected e)
  then show ?thesis using assms by (simp add: try_attempt_def retryable_rejection_def)
next
  case (Resolved r)
  then have s: "500 \<le> status r" and t: "\<not> str_includes (statusText r) ''Authentication failed''"
    using assms by simp_all
  have e: "http_error cfg attempt r = Exn Error (''Server error: '' @ show_nat (status r) @ '' '' @ statusText r)"
    using s assms(2) by (simp add: http_error_def)
  have "try_attempt cfg attempt outcome parseFn = Inl (http_error cfg attempt r)"
    using s Resolved by (simp add: try_attempt_def ok_def)
  moreover have "\<not> no_retry (as_Error (http_error cfg attempt r))"
    using t unfolding e no_retry_def by (simp only: as_Error.simps instanceof.simps error_message.simps server_error_message) simp
  ultimately show ?thesis by (simp add: e)
qed

lemma exec_retry_chain:
  assumes "\<forall>k. a \<le> k \<and> k < maxRetries cfg \<longrightarrow> retryable_failure (requestFn k)"
    and "requestFn (maxRetries cfg) = Resolved r" and "ok r" and "parseFn r = Inr v"
    and "a \<le> maxRetries cfg"
  shows "executeRequest_from cfg requestFn parseFn a lastError =
           (Inr v, concat (map (\<lambda>k. [SlotAcquired, RequestIssued, Backoff (backoff_delay cfg k)])
                            [a..<maxRetries cfg])
                   @ [SlotAcquired, RequestIssued])"
  using assms
proof (induction "maxRetries cfg - a" arbitrary: a lastError)
  case 0
  then have a: "a = maxRetries cfg" by simp
  have "try_attempt cfg a (requestFn a) parseFn = Inr v"
    using 0 a by (simp add: try_attempt_def)
  then show ?case using a by (simp add: executeRequest_from_step)
next
  case (Suc n)
  then have lt: "a < maxRetries cfg" by simp
  obtain e where e: "try_attempt cfg a (requestFn a) parseFn = Inl e"
      "\<not> instanceof e PluginConfigurationError" "\<not> no_retry (as_Error e)"
    using retryable_failure_step [of "requestFn a" a cfg parseFn] Suc.prems(1) lt by auto
  have ih: "executeRequest_from cfg requestFn parseFn (Suc a) (Some (as_Error e)) =
           (Inr v, concat (map (\<lambda>k. [SlotAcquired, RequestIssued, Backoff (backoff_delay cfg k)])
                            [Suc a..<maxRetries cfg])
                   @ [SlotAcquired, RequestIssued])"
    using Suc.hyps(1) [of "Suc a" "Some (as_Error e)"] Suc.hyps(2) Suc.prems lt by simp
  have up: "[a..<maxRetries cfg] = a # [Suc a..<maxRetries cfg]"
    using lt by (simp add: upt_conv_Cons)
  show ?case using lt e ih by (simp add: executeRequest_from_step up)
qed

lemma attempts_chain:
  "attempts (concat (map (\<lambda>k. [SlotAcquired, RequestIssued, Backoff (f k)]) ks)
             @ [SlotAcquired, RequestIssued]) = Suc (length ks)"
  by (induction ks) (simp_all add: attempts_def)

lemma delays_chain:
  "delays (concat (map (\<lambda>k. [SlotAcquired, RequestIssued, Backoff (f k)]) ks)
             @ [SlotAcquired, RequestIssued]) = map f ks"
  by (induction ks) simp_all


lemma map_pred_upt: "map (\<lambda>i. g (i - 1)) [1..<Suc n] = map g [0..<n]"
proof -
  have "[1..<Suc n] = map Suc [0..<n]" by (simp add: map_Suc_upt)
  then show ?thesis by (simp add: comp_def)
qed

text \<open>
  C1 (amended). For a service built by the constructor with \<open>maxRetries = n\<close>
  (initial delay 1000 ms, multiplier 2, maximal delay 10000 ms): if each of the first
  \<open>n\<close> requests fails in a way the loop retries (a status of 500 or more whose status
  text does not contain \<open>Authentication failed\<close>, or a rejection that none of the
  tests of the \<open>catch\<close> block stops) and request \<open>n\<close> is answered \<open>ok\<close> and parses to
  \<open>v\<close>, then \<open>executeRequest\<close> returns \<open>v\<close> after exactly \<open>n + 1\<close> requests, and the
  sleep before request \<open>i\<close> (\<open>1 \<le> i \<le> n\<close>) is \<open>min 10000 (1000 * 2 ^ (i - 1))\<close>.
\<close>

theorem executeRequest_retries_then_succeeds:
  assumes "svc = WormholeService_new url key tmo rps n"
    and "\<forall>k<n. retryable_failure (requestFn k)"
    and "requestFn n = Resolved r" and "ok r" and "parseFn r = Inr v"
  shows "fst (executeRequest svc requestFn parseFn) = Inr v
         \<and> attempts (snd (executeRequest svc requestFn parseFn)) = n + 1
         \<and> delays (snd (executeRequest svc requestFn parseFn))
             = map (\<lambda>i. min 10000 (1000 * 2 ^ (i - 1))) [1..<Suc n]
         \<and> snd (executeRequest svc requestFn parseFn)
             = concat (map (\<lambda>k. [SlotAcquired, RequestIssued, Backoff (min 10000 (1000 * 2 ^ k))]) [0..<n])
               @ [SlotAcquired, RequestIssued]"
proof -
  let ?cfg = "retryConfig svc"
  have cfg: "maxRetries ?cfg = n" "initialDelayMs ?cfg = 1000" "maxDelayMs ?cfg = 10000"
      "backoffMultiplier ?cfg = 2"
    using assms(1) by (simp_all add: WormholeService_new_def Let_def)
  have d: "backoff_delay ?cfg k = min 10000 (1000 * 2 ^ k)" for k
    by (simp add: backoff_delay_def cfg min.commute)
  have "executeRequest svc requestFn parseFn =
          (Inr v, concat (map (\<lambda>k. [SlotAcquired, RequestIssued, Backoff (backoff_delay ?cfg k)])
                            [0..<maxRetries ?cfg])
                  @ [SlotAcquired, RequestIssued])"
    unfolding executeRequest_def
    by (rule exec_retry_chain [where r = r]) (use assms cfg in simp_all)
  then have run: "executeRequest svc requestFn parseFn =
          (Inr v, concat (map (\<lambda>k. [SlotAcquired, RequestIssued, Backoff (min 10000 (1000 * 2 ^ k))]) [0..<n])
                  @ [SlotAcquired, RequestIssued])"
    by (simp add: d cfg)
  have a: "attempts (snd (executeRequest svc requestFn parseFn)) = n + 1"
    unfolding run snd_conv by (simp only: attempts_chain) simp
  have b: "delays (snd (executeRequest svc requestFn parseFn))
             = map (\<lambda>i. min 10000 (1000 * 2 ^ (i - 1))) [1..<Suc n]"
    unfolding run snd_conv delays_chain
    by (rule map_pred_upt [of "\<lambda>k. min 10000 (1000 * 2 ^ k)" n, symmetric])
  show ?thesis using a b by (simp add: run)
qed

theorem executeRequest_retries_then_succeeds_witness:
  "retryable_failure (Resolved (response 503 ''Service Unavailable'' (Inr JNull)))
   \<and> ok (response 200 ''OK'' (Inr JNull))
   \<and> fst (executeRequest (WormholeService_new ''u'' ''k'' 5000 10 5)
            (fails_then 5 (Resolved (response 503 ''Service Unavailable'' (Inr JNull)))
                          (Resolved (response 200 ''OK'' (Inr JNull))))
            parseHealth) = Inr ''ok''
   \<and> attempts (snd (executeRequest (WormholeService_new ''u'' ''k'' 5000 10 5)
            (fails_then 5 (Resolved (response 503 ''Service Unavailable'' (Inr JNull)))
                          (Resolved (response 200 ''OK'' (Inr JNull))))
            parseHealth)) = 6
   \<and> delays (snd (executeRequest (WormholeService_new ''u'' ''k'' 5000 10 5)
            (fails_then 5 (Resolved (response 503 ''Service Unavailable'' (Inr JNull)))
                          (Resolved (response 200 ''OK'' (Inr JNull))))
            parseHealth)) = [1000, 2000, 4000, 8000, 10000]"
proof -
  have h: "\<forall>k<5. retryable_failure
             (fails_then 5 (Resolved (response 503 ''Service Unavailable'' (Inr JNull)))
                           (Resolved (response 200 ''OK'' (Inr JNull))) k)"
    by (simp add: fails_then_def response_def)
  have o: "ok (response 200 ''OK'' (Inr JNull))" by (simp add: ok_def response_def)
  have g: "fails_then 5 (Resolved (response 503 ''Service Unavailable'' (Inr JNull)))
             (Resolved (response 200 ''OK'' (Inr JNull))) 5 = Resolved (response 200 ''OK'' (Inr JNull))"
    by (simp add: fails_then_def)
  have p: "parseHealth (response 200 ''OK'' (Inr JNull)) = Inr ''ok''" by (simp add: parseHealth_def)
  have d: "map (\<lambda>i. min 10000 (1000 * 2 ^ (i - 1))) [1..<Suc 5] = [1000, 2000, 4000, 8000, 10000::nat]"
    by (simp add: upt_rec)
  note run = executeRequest_retries_then_succeeds
      [where svc = "WormholeService_new ''u'' ''k'' 5000 10 5" and url = "''u''" and key = "''k''"
         and tmo = 5000 and rps = 10 and n = 5
         and requestFn = "fails_then 5 (Resolved (response 503 ''Service Unavailable'' (Inr JNull)))
                           (Resolved (response 200 ''OK'' (Inr JNull)))"
         and r = "response 200 ''OK'' (Inr JNull)" and parseFn = parseHealth and v = "''ok''",
       OF refl h g o p]
  from run have "fst (executeRequest (WormholeService_new ''u'' ''k'' 5000 10 5)
            (fails_then 5 (Resolved (response 503 ''Service Unavailable'' (Inr JNull)))
                          (Resolved (response 200 ''OK'' (Inr JNull))))
            parseHealth) = Inr ''ok''" by (rule conjunct1)
  moreover have "attempts (snd (executeRequest (WormholeService_new ''u'' ''k'' 5000 10 5)
            (fails_then 5 (Resolved (response 503 ''Service Unavailable'' (Inr JNull)))
                          (Resolved (response 200 ''OK'' (Inr JNull))))
            parseHealth)) = 6"
    using run [THEN conjunct2, THEN conjunct1] by simp
  moreover have "delays (snd (executeRequest (WormholeService_new ''u'' ''k'' 5000 10 5)
            (fails_then 5 (Resolved (response 503 ''Service Unavailable'' (Inr JNull)))
                          (Resolved (response 200 ''OK'' (Inr JNull))))
            parseHealth)) = [1000, 2000, 4000, 8000, 10000]"
    using run [THEN conjunct2, THEN conjunct2, THEN conjunct1] unfolding d .
  moreover have "retryable_failure (Resolved (response 503 ''Service Unavailable'' (Inr JNull)))"
    by (simp add: response_def)
  ultimately show ?thesis using o by (intro conjI)
qed

text \<open>
  C1 as stated fails: a response with status 503 is a failure with a status of 500 or
  more, yet where its status text is \<open>Authentication failed\<close> the error built from it
  (\<open>Server error: 503 Authentication failed\<close>) meets the test on the message in the
  \<open>catch\<close> block, and the call ends after one request although three retries remain.
\<close>

theorem executeRequest_server_error_not_retried:
  "500 \<le> status (response 503 ''Authentication failed'' (Inr JNull))
   \<and> ok (response 200 ''OK'' (Inr JNull))
   \<and> executeRequest (WormholeService_new ''u'' ''k'' 5000 10 3)
        (fails_then 3 (Resolved (response 503 ''Authentication failed'' (Inr JNull)))
                      (Resolved (response 200 ''OK'' (Inr JNull))))
        parseHealth
      = (Inl (Exn Error ''Server error: 503 Authentication failed''), [SlotAcquired, RequestIssued])
   \<and> attempts [SlotAcquired, RequestIssued] = 1"
  by (simp add: executeRequest_def WormholeService_new_def executeRequest_from_step try_attempt_def
      fails_then_def response_def ok_def http_error_def no_retry_def digit_char_def attempts_def)

section \<open>Unauthorized answers\<close>






section \<open>The default window of a snapshot\<close>

lemma executeRequest_from_parsed:
  "fst (executeRequest_from cfg requestFn parseFn attempt lastError) = Inr v
     \<Longrightarrow> \<exists>r. parseFn r = Inr v"
proof (induction cfg requestFn parseFn attempt lastError rule: executeRequest_from.induct)
  case (1 cfg requestFn parseFn attempt lastError)
  show ?case
  proof (cases "attempt \<le> maxRetries cfg")
    case False
    then show ?thesis using "1.prems" by (simp add: executeRequest_from_done)
  next
    case True
    show ?thesis
    proof (cases "try_attempt cfg attempt (requestFn attempt) parseFn")
      case (Inr w)
      then have "w = v" using "1.prems" True by (simp add: executeRequest_from_step)
      then show ?thesis using Inr
        by (auto simp add: try_attempt_def split: fetch_outcome.splits if_splits)
    next
      case (Inl e)
      show ?thesis
      proof (cases "instanceof e PluginConfigurationError \<or> no_retry (as_Error e)")
        case True
        then show ?thesis using "1.prems" \<open>attempt \<le> maxRetries cfg\<close> Inl
          by (auto simp add: executeRequest_from_step split: if_splits)
      next
        case False
        then have "fst (executeRequest_from cfg requestFn parseFn (Suc attempt) (Some (as_Error e))) = Inr v"
          using "1.prems" \<open>attempt \<le> maxRetries cfg\<close> Inl
          by (auto simp add: executeRequest_from_step split: prod.splits)
        then show ?thesis
          using "1.IH" [OF \<open>attempt \<le> maxRetries cfg\<close> Inl] False by simp
      qed
    qed
  qed
qed

lemma getVolumes_from_windows: "map window (getVolumes_from svc upstream now i ws) = ws"
proof (induction ws arbitrary: i)
  case Nil
  show ?case by simp
next
  case (Cons w ws)
  have "window (case fst (executeRequest svc (upstream i) (parseVolume w now)) of
        Inr volume \<Rightarrow> volume
      | Inl error \<Rightarrow> \<lparr>window = w, volumeUsd = Some (JNum (estimateVolumeForWindow w)),
                       measuredAt = now\<rparr>) = w"
  proof (cases "fst (executeRequest svc (upstream i) (parseVolume w now))")
    case (Inl e)
    then show ?thesis by simp
  next
    case (Inr v)
    then have "\<exists>r. parseVolume w now r = Inr v"
      unfolding executeRequest_def by (rule executeRequest_from_parsed)
    then obtain r where "parseVolume w now r = Inr v" ..
    then have "window v = w"
      by (auto simp add: parseVolume_def split: sum.splits if_splits)
    then show ?thesis using Inr by simp
  qed
  then show ?case using Cons.IH by simp
qed

text \<open>
  C10. Where \<open>includeWindows\<close> is left out of the parameters, a snapshot that
  \<open>getSnapshot\<close> returns has exactly one volume entry, and its window is \<open>24h\<close>.
  (\<open>getSnapshot\<close> returns a snapshot whenever \<open>getRates\<close> does not throw:
  \<open>getSnapshot_returns\<close>.)
\<close>

theorem getSnapshot_default_window:
  assumes "includeWindows params = None"
    and "getSnapshot svc up now params = Inr snapshot"
  shows "length (volumes snapshot) = 1 \<and> map window (volumes snapshot) = [W24h]"
proof -
  have "volumes snapshot = getVolumes svc (volume_answers up) now [W24h]"
    using assms by (auto simp add: getSnapshot_def tryPromise_def split: sum.splits)
  then have "map window (volumes snapshot) = [W24h]"
    by (simp only: getVolumes_def getVolumes_from_windows)
  then show ?thesis by (metis length_map length_Cons list.size(3) One_nat_def)
qed

lemma getSnapshot_returns:
  "getRates svc (quote_answers up) now (routes params) (notionals params) = Inr rs
     \<Longrightarrow> \<exists>snapshot. getSnapshot svc up now params = Inr snapshot"
  by (simp add: getSnapshot_def tryPromise_def)


theorem getSnapshot_default_window_witness:
  "includeWindows \<lparr>routes = [], notionals = [], includeWindows = None\<rparr> = None
   \<and> getSnapshot (WormholeService_new ''u'' ''k'' 5000 10 3)
        (uniform_upstream (Resolved (response 200 ''OK'' (Inr (JObj [(''volumeUsd'', JNum 123)])))))
        ''2025-01-01T00:00:00.000Z''
        \<lparr>routes = [], notionals = [], includeWindows = None\<rparr>
      = Inr \<lparr>volumes = [\<lparr>window = W24h, volumeUsd = Some (JNum 123),
                           measuredAt = ''2025-01-01T00:00:00.000Z''\<rparr>],
             rates = [], liquidity = [],
             listedAssets = \<lparr>assets = [], assets_measuredAt = ''2025-01-01T00:00:00.000Z''\<rparr>\<rparr>
   \<and> length (volumes \<lparr>volumes = [\<lparr>window = W24h, volumeUsd = Some (JNum 123),
                           measuredAt = ''2025-01-01T00:00:00.000Z''\<rparr>],
             rates = [], liquidity = [],
             listedAssets = \<lparr>assets = [], assets_measuredAt = ''2025-01-01T00:00:00.000Z''\<rparr>\<rparr>) = 1"
proof -
  have p: "includeWindows \<lparr>routes = [], notionals = [], includeWindows = None\<rparr> = None" by simp
  have ev: "fst (executeRequest (WormholeService_new ''u'' ''k'' 5000 10 3)
             (always (Resolved (response 200 ''OK'' (Inr (JObj [(''volumeUsd'', JNum 123)])))))
             (parseVolume W24h ''2025-01-01T00:00:00.000Z''))
           = Inr \<lparr>window = W24h, volumeUsd = Some (JNum 123),
                     measuredAt = ''2025-01-01T00:00:00.000Z''\<rparr>"
    by (simp add: executeRequest_def executeRequest_from_step try_attempt_def always_def
        response_def ok_def parseVolume_def js_or_def)
  have ea: "fst (executeRequest (WormholeService_new ''u'' ''k'' 5000 10 3)
             (always (Resolved (response 200 ''OK'' (Inr (JObj [(''volumeUsd'', JNum 123)])))))
             parseAssets) = Inr []"
    by (simp add: executeRequest_def executeRequest_from_step try_attempt_def always_def
        response_def ok_def parseAssets_def js_or_def)
  have g: "getSnapshot (WormholeService_new ''u'' ''k'' 5000 10 3)
        (uniform_upstream (Resolved (response 200 ''OK'' (Inr (JObj [(''volumeUsd'', JNum 123)])))))
        ''2025-01-01T00:00:00.000Z''
        \<lparr>routes = [], notionals = [], includeWindows = None\<rparr>
      = Inr \<lparr>volumes = [\<lparr>window = W24h, volumeUsd = Some (JNum 123),
                           measuredAt = ''2025-01-01T00:00:00.000Z''\<rparr>],
             rates = [], liquidity = [],
             listedAssets = \<lparr>assets = [], assets_measuredAt = ''2025-01-01T00:00:00.000Z''\<rparr>\<rparr>"
    by (simp add: getSnapshot_def tryPromise_def getRates_def getVolumes_def getLiquidityDepth_def
        getListedAssets_def uniform_upstream_def ev ea)
  show ?thesis
    using getSnapshot_default_window [OF p g] p g by simp
qed


section \<open>The health check\<close>

lemma ping_operations_ok: "ping_operations outcome now = Inr \<lparr>ping_status = ''ok'', timestamp = now\<rparr>"
  by (simp add: ping_operations_def catchAll_def tryPromise_def split: fetch_outcome.splits)

text \<open>
  C9 fails on \<open>ping\<close> of \<open>service.ts\<close>. With every request rejected (the input of the
  repository's own test of \<open>ping\<close>), \<open>executeRequest\<close> throws after its four requests
  and the effect fails: the record with status \<open>ok\<close> travels in the failure of the
  effect, and the caller of \<open>ping\<close> gets an error. The variant \<open>ping_operations\<close>
  succeeds on every outcome (\<open>ping_operations_ok\<close>).
\<close>

theorem ping_fails_when_upstream_is_down:
  "ping (WormholeService_new ''https://api.wormhole.com'' ''test-api-key'' 5000 10 3)
        (always (Rejected (Exn Error ''API unavailable''))) ''2025-01-01T00:00:00.000Z''
     = Inl \<lparr>ping_status = ''ok'', timestamp = ''2025-01-01T00:00:00.000Z''\<rparr>"
  by (simp add: ping_def tryPromise_def executeRequest_def WormholeService_new_def
      executeRequest_from_step executeRequest_from_done try_attempt_def always_def no_retry_def)

lemma ping_result:
  "ping svc upstream now =
     (case fst (executeRequest svc upstream parseHealth) of
        Inl e \<Rightarrow> Inl \<lparr>ping_status = ''ok'', timestamp = now\<rparr>
      | Inr h \<Rightarrow> Inr \<lparr>ping_status = ''ok'', timestamp = now\<rparr>)"
  by (simp add: ping_def tryPromise_def split: sum.splits)

section \<open>Rate normalization\<close>

lemmas BigInt_string_eval =
  BigInt_string_def StringToBigInt_def trim_def is_space_def parse_digits_def digit_value_def


text \<open>
  C6. Where the amount converts to \<open>0\<close>, \<open>normalizeRate\<close> throws, whatever the
  decimals and the upstream document are: it never returns a rate. Where the document
  holds an \<open>amountOut\<close> that converts to an integer, what it throws is the error of the
  zero test, \<open>AmountIn cannot be zero\<close>.
\<close>

theorem normalizeRate_zero_amountIn:
  assumes "BigInt_string amountIn_text = Inr 0"
  shows "(\<exists>e. normalizeRate src dst amountIn_text apiData now = Inl e)
         \<and> (apiData \<noteq> JNull \<longrightarrow> amountOutRaw_of apiData = Some raw \<longrightarrow> truthy (Some raw)
              \<longrightarrow> BigInt_of_String raw = Inr amountOutNum
              \<longrightarrow> normalizeRate src dst amountIn_text apiData now
                    = Inl (Exn Error ''AmountIn cannot be zero''))"
  using assms
  by (auto simp add: normalizeRate_def Let_def split: sum.splits option.splits)

theorem normalizeRate_zero_amountIn_witness:
  "BigInt_string ''0'' = Inr 0
   \<and> amountOutRaw_of (quote_of ''995000'') = Some (JStr ''995000'')
   \<and> BigInt_of_String (JStr ''995000'') = Inr 995000
   \<and> normalizeRate USDC_chain1 USDC_chain137 ''0'' (quote_of ''995000'') ''2025-01-01T00:00:00.000Z''
       = Inl (Exn Error ''AmountIn cannot be zero'')"
proof -
  have z: "BigInt_string ''0'' = Inr 0" by (simp add: BigInt_string_eval)
  have r: "amountOutRaw_of (quote_of ''995000'') = Some (JStr ''995000'')"
    by (simp add: amountOutRaw_of_def quote_of_def js_or_def)
  have b: "BigInt_of_String (JStr ''995000'') = Inr 995000" by (simp add: BigInt_string_eval)
  have n: "quote_of ''995000'' \<noteq> JNull" by (simp add: quote_of_def)
  show ?thesis
    using normalizeRate_zero_amountIn
      [OF z, of USDC_chain1 USDC_chain137 "quote_of ''995000''" "''2025-01-01T00:00:00.000Z''"
         "JStr ''995000''" 995000]
      z r b n by simp
qed






end
